theory Spec2Isabelle
  imports Main "HOL-Library.Word"
begin

section \<open>The users package: data\<close>

text \<open>
  The file \<^verbatim>\<open>src/unnamed/part_000\<close> is package \<^verbatim>\<open>users\<close>. Its data are the struct
  \<^verbatim>\<open>User\<close> and the package variables \<^verbatim>\<open>users\<close> (a map from names to pointers to
  heap records) and \<^verbatim>\<open>userCount\<close> (an \<^verbatim>\<open>int64\<close>).

  A \<^verbatim>\<open>*websocket.Conn\<close> is an address or nil: \<open>conn option\<close>, with \<open>None\<close> for nil.
  An \<^verbatim>\<open>int64\<close> is a \<open>64 word\<close>, read signed. The field \<^verbatim>\<open>status\<close> is a Go \<^verbatim>\<open>int\<close>
  that is only stored, never computed with; it is an \<open>int\<close> here.
\<close>

type_synonym conn = nat

record User =
  name :: string
  databaseID :: "64 word"
  isGuest :: bool
  room :: string
  status :: int
  socket :: "conn option"

text \<open>The zero value \<^verbatim>\<open>User{}\<close>.\<close>

definition User_zero :: User where
  "User_zero = \<lparr>name = [], databaseID = 0, isGuest = False, room = [], status = 0, socket = None\<rparr>"

text \<open>The constants of the \<^verbatim>\<open>iota\<close> block, lines 33 to 37.\<close>

definition StatusAvailable :: int where
  "StatusAvailable = 0"

definition StatusInGame :: int where
  "StatusInGame = 1"

definition StatusIdle :: int where
  "StatusIdle = 2"

text \<open>
  An \<^verbatim>\<open>error\<close> made by \<^verbatim>\<open>errors.New\<close> carries its message. The errors of the rooms
  package are values of the same type, whatever their message.
\<close>

datatype error = errors_New string

text \<open>
  The rooms package is not part of the source: \<^verbatim>\<open>rooms.Get\<close>, \<^verbatim>\<open>Room.Name\<close>,
  \<^verbatim>\<open>Room.AddUser\<close> and \<^verbatim>\<open>Room.RemoveUser\<close> are parameters, functions over a state
  \<open>'w\<close> of that package, with rooms of a type \<open>'r\<close>. Go forbids import cycles, so the rooms
  package cannot reach the variables of package users: its functions read and change \<open>'w\<close>
  only. \<^verbatim>\<open>Name\<close> is a reader and has no effect. \<^verbatim>\<open>AddUser\<close> is handed \<^verbatim>\<open>&u.name\<close>;
  the model hands it the name and assumes that it does not write through the pointer.
\<close>

record ('r, 'w) rooms_pkg =
  Room_Name :: "'r \<Rightarrow> string"
  rooms_Get :: "string \<Rightarrow> 'w \<Rightarrow> (error + 'r) \<times> 'w"
  Room_AddUser :: "'r \<Rightarrow> string \<Rightarrow> conn option \<Rightarrow> 'w \<Rightarrow> error option \<times> 'w"
  Room_RemoveUser :: "'r \<Rightarrow> string \<Rightarrow> 'w \<Rightarrow> error option \<times> 'w"

text \<open>Every call that leaves package users for the rooms package is logged, in order.\<close>

datatype 'r call =
    Call_rooms_Get string
  | Call_AddUser 'r string "conn option"
  | Call_RemoveUser 'r string

text \<open>
  The state: the two package variables, the state of the rooms package and the log of the
  calls made to it. The pointers stored in \<^verbatim>\<open>users\<close> never leave the package
  (\<^verbatim>\<open>loginUser\<close> and \<^verbatim>\<open>getUser\<close> dereference before they return), so no \<^verbatim>\<open>*User\<close> of a
  caller aliases a stored record, and the map holds the records themselves.
\<close>

record ('r, 'w) state =
  users :: "string \<rightharpoonup> User"
  userCount :: "64 word"
  rooms_world :: 'w
  calls :: "'r call list"

section \<open>The action channel\<close>

text \<open>
  Modelled from the spec: \<^verbatim>\<open>helpers.ActionChannel.Execute\<close> is not part of the source. The
  spec (4.1) has it run the submitted action to completion on the single worker and return
  whatever the action produced; run one request at a time, that is applying the action.
\<close>

definition Execute :: "('p \<Rightarrow> 's \<Rightarrow> 'a \<times> 's) \<Rightarrow> 'p \<Rightarrow> 's \<Rightarrow> 'a \<times> 's" where
  "Execute action p s = action p s"

section \<open>Logging in\<close>

text \<open>Lines 85 to 100. The struct literal leaves \<^verbatim>\<open>room\<close> and \<^verbatim>\<open>status\<close> at their zero values.\<close>

definition loginUser ::
  "string \<times> 64 word \<times> bool \<times> conn option \<Rightarrow> ('r, 'w) state \<Rightarrow> (User \<times> error option) \<times> ('r, 'w) state" where
  "loginUser p s =
     (case p of (userName, dbID, isGuest', socket') \<Rightarrow>
        (case users s userName of
           Some _ \<Rightarrow>
             ((User_zero,
               Some (errors_New (''User '' @ [CHR 0x27] @ userName @ [CHR 0x27] @ '' is already logged in''))), s)
         | None \<Rightarrow>
             (let s1 = s\<lparr>userCount := userCount s + 1\<rparr>;
                  newUser = \<lparr>name = userName, databaseID = dbID, isGuest = isGuest',
                             room = [], status = 0, socket = socket'\<rparr>;
                  s2 = s1\<lparr>users := (users s1)(userName \<mapsto> newUser)\<rparr>;
                  userRef = the (users s2 userName)
              in ((userRef, None), s2))))"

text \<open>
  Lines 56 to 83. The comparison \<^verbatim>\<open>dbID < -1\<close> is signed. The inner
  \<^verbatim>\<open>if(){ }else{ err = response[1].(error) }\<close> of line 74 has no condition in the source.
  Its value is the parameter \<open>cond74\<close>: when it is true the error of the action is dropped
  and \<^verbatim>\<open>Login\<close> returns \<^verbatim>\<open>response[0]\<close> with a nil error; when it is false the error is
  returned. The statements about \<^verbatim>\<open>Login\<close> hold for both values.
\<close>

definition Login ::
  "bool \<Rightarrow> string \<Rightarrow> 64 word \<Rightarrow> bool \<Rightarrow> conn option \<Rightarrow> ('r, 'w) state \<Rightarrow>
   (User \<times> error option) \<times> ('r, 'w) state" where
  "Login cond74 userName dbID isGuest' socket' s =
     (if length userName = 0 then
        ((User_zero, Some (errors_New ''users.Login() requires a user name'')), s)
      else if dbID <s - 1 then
        ((User_zero, Some (errors_New ''users.Login() requires a database ID (or -1 for no ID)'')), s)
      else if socket' = None then
        ((User_zero, Some (errors_New ''users.Login() requires a socket'')), s)
      else
        (let databaseID' = (if isGuest' then - 1 else dbID)
         in case Execute loginUser (userName, databaseID', isGuest', socket') s of
              ((response0, response1), s') \<Rightarrow>
                (case response1 of
                   Some e \<Rightarrow> (if cond74 then ((response0, None), s') else ((response0, Some e), s'))
                 | None \<Rightarrow> ((response0, None), s'))))"

section \<open>Getting a user\<close>

text \<open>Lines 119 to 131.\<close>

definition getUser :: "string \<Rightarrow> ('r, 'w) state \<Rightarrow> (User \<times> error option) \<times> ('r, 'w) state" where
  "getUser userName s =
     (case users s userName of
        Some user \<Rightarrow> ((user, None), s)
      | None \<Rightarrow>
          ((User_zero,
            Some (errors_New (''User '' @ [CHR 0x27] @ userName @ [CHR 0x27] @ '' is not logged in''))), s))"

text \<open>Lines 106 to 117.\<close>

definition Get :: "string \<Rightarrow> ('r, 'w) state \<Rightarrow> (User \<times> error option) \<times> ('r, 'w) state" where
  "Get userName s =
     (if length userName = 0 then
        ((User_zero, Some (errors_New ''users.Get() requires a user name'')), s)
      else
        (case Execute getUser userName s of
           ((response0, response1), s') \<Rightarrow>
             (case response1 of
                Some e \<Rightarrow> ((response0, Some e), s')
              | None \<Rightarrow> ((response0, None), s'))))"

section \<open>Changing the room name\<close>

text \<open>
  Lines 184 to 197. The action is handed a pointer to the caller's \<^verbatim>\<open>User\<close> and writes
  through it; the model takes the caller's value and returns it as the action leaves it.
\<close>

definition changeUserRoomName ::
  "User \<times> string \<Rightarrow> ('r, 'w) state \<Rightarrow> (error option \<times> User) \<times> ('r, 'w) state" where
  "changeUserRoomName p s =
     (case p of (theUser, roomName) \<Rightarrow>
        (case users s (name theUser) of
           Some stored \<Rightarrow>
             ((None, theUser\<lparr>room := roomName\<rparr>),
              s\<lparr>users := (users s)(name theUser \<mapsto> stored\<lparr>room := roomName\<rparr>)\<rparr>)
         | None \<Rightarrow>
             ((Some (errors_New (''User '' @ [CHR 0x27] @ name theUser @ [CHR 0x27] @ '' is not logged in'')),
               theUser), s)))"

section \<open>Logging out: the registry action\<close>

text \<open>Lines 215 to 219. The action returns an empty slice: no value and no error.\<close>

definition logUserOut :: "string \<Rightarrow> ('r, 'w) state \<Rightarrow> unit \<times> ('r, 'w) state" where
  "logUserOut userName s = ((), s\<lparr>users := (users s)(userName := None)\<rparr>)"

section \<open>Calls into the rooms package\<close>

text \<open>Each call runs the parameter on the state of the rooms package and logs the call.\<close>

definition call_rooms_Get ::
  "('r, 'w) rooms_pkg \<Rightarrow> string \<Rightarrow> ('r, 'w) state \<Rightarrow> (error + 'r) \<times> ('r, 'w) state" where
  "call_rooms_Get R roomName s =
     (case rooms_Get R roomName (rooms_world s) of
        (res, w) \<Rightarrow> (res, s\<lparr>rooms_world := w, calls := calls s @ [Call_rooms_Get roomName]\<rparr>))"

definition call_AddUser ::
  "('r, 'w) rooms_pkg \<Rightarrow> 'r \<Rightarrow> string \<Rightarrow> conn option \<Rightarrow> ('r, 'w) state \<Rightarrow> error option \<times> ('r, 'w) state" where
  "call_AddUser R r userName socket' s =
     (case Room_AddUser R r userName socket' (rooms_world s) of
        (res, w) \<Rightarrow> (res, s\<lparr>rooms_world := w, calls := calls s @ [Call_AddUser r userName socket']\<rparr>))"

definition call_RemoveUser ::
  "('r, 'w) rooms_pkg \<Rightarrow> 'r \<Rightarrow> string \<Rightarrow> ('r, 'w) state \<Rightarrow> error option \<times> ('r, 'w) state" where
  "call_RemoveUser R r userName s =
     (case Room_RemoveUser R r userName (rooms_world s) of
        (res, w) \<Rightarrow> (res, s\<lparr>rooms_world := w, calls := calls s @ [Call_RemoveUser r userName]\<rparr>))"

section \<open>Leaving and joining a room\<close>

text \<open>
  Lines 166 to 182. The receiver is a pointer: the result carries the caller's \<^verbatim>\<open>User\<close>
  as \<^verbatim>\<open>Leave\<close> leaves it.
\<close>

definition Leave ::
  "('r, 'w) rooms_pkg \<Rightarrow> User \<Rightarrow> ('r, 'w) state \<Rightarrow> (error option \<times> User) \<times> ('r, 'w) state" where
  "Leave R u s =
     (if room u \<noteq> [] then
        (case call_rooms_Get R (room u) s of
           (Inl roomErr, s1) \<Rightarrow> ((Some roomErr, u), s1)
         | (Inr room', s1) \<Rightarrow>
             (case call_RemoveUser R room' (name u) s1 of
                (Some removeErr, s2) \<Rightarrow> ((Some removeErr, u), s2)
              | (None, s2) \<Rightarrow>
                  (case Execute changeUserRoomName (u, []) s2 of
                     ((Some e, u'), s3) \<Rightarrow> ((Some e, u'), s3)
                   | ((None, u'), s3) \<Rightarrow> ((None, u'), s3))))
      else
        ((Some (errors_New (''User '' @ [CHR 0x27] @ name u @ [CHR 0x27] @ '' is not in a room.'')), u), s))"

text \<open>Lines 149 to 164. The result of the inner \<^verbatim>\<open>u.Leave()\<close> is dropped, its effects are not.\<close>

definition Join ::
  "('r, 'w) rooms_pkg \<Rightarrow> User \<Rightarrow> 'r \<Rightarrow> ('r, 'w) state \<Rightarrow> (error option \<times> User) \<times> ('r, 'w) state" where
  "Join R u r s =
     (if room u = Room_Name R r then
        ((Some (errors_New (''User '' @ [CHR 0x27] @ name u @ [CHR 0x27] @ '' is already in room ''
                            @ [CHR 0x27] @ Room_Name R r @ [CHR 0x27])), u), s)
      else
        (case (if room u \<noteq> [] then (case Leave R u s of ((_, u'), s') \<Rightarrow> (u', s')) else (u, s)) of
           (u1, s1) \<Rightarrow>
             (case Execute changeUserRoomName (u1, Room_Name R r) s1 of
                ((Some e, u2), s2) \<Rightarrow> ((Some e, u2), s2)
              | ((None, u2), s2) \<Rightarrow>
                  (case call_AddUser R r (name u2) (socket u2) s2 of
                     (addErr, s3) \<Rightarrow> ((addErr, u2), s3)))))"

section \<open>Logging out and kicking\<close>

text \<open>Lines 203 to 213. \<^verbatim>\<open>LogOut\<close> has no result, and does not write to its receiver.\<close>

definition LogOut :: "('r, 'w) rooms_pkg \<Rightarrow> User \<Rightarrow> ('r, 'w) state \<Rightarrow> ('r, 'w) state" where
  "LogOut R u s =
     (let s1 = (if room u \<noteq> [] then
                  (case call_rooms_Get R (room u) s of
                     (Inr room', s') \<Rightarrow> snd (call_RemoveUser R room' (name u) s')
                   | (Inl err, s') \<Rightarrow> s')
                else s)
      in snd (Execute logUserOut (name u) s1))"

text \<open>Lines 225 to 238.\<close>

definition Kick :: "('r, 'w) rooms_pkg \<Rightarrow> string \<Rightarrow> ('r, 'w) state \<Rightarrow> error option \<times> ('r, 'w) state" where
  "Kick R userName s =
     (if length userName = 0 then
        (Some (errors_New ''users.Kick() requires a user name''), s)
      else
        (case Get userName s of
           ((user, Some err), s1) \<Rightarrow> (Some err, s1)
         | ((user, None), s1) \<Rightarrow> (None, LogOut R user s1)))"

section \<open>The errors by the names of the spec\<close>

text \<open>
  The spec names kinds of failure; the source builds each failure with \<^verbatim>\<open>errors.New\<close>.
  Each constant below is the value built at the lines given, under the name the spec uses.
\<close>

text \<open>Line 91.\<close>

definition AlreadyLoggedIn :: "string \<Rightarrow> error" where
  "AlreadyLoggedIn userName =
     errors_New (''User '' @ [CHR 0x27] @ userName @ [CHR 0x27] @ '' is already logged in'')"

text \<open>Lines 127 and 192.\<close>

definition NotLoggedIn :: "string \<Rightarrow> error" where
  "NotLoggedIn userName =
     errors_New (''User '' @ [CHR 0x27] @ userName @ [CHR 0x27] @ '' is not logged in'')"

text \<open>Line 151.\<close>

definition AlreadyInRoom :: "string \<Rightarrow> string \<Rightarrow> error" where
  "AlreadyInRoom userName roomName =
     errors_New (''User '' @ [CHR 0x27] @ userName @ [CHR 0x27] @ '' is already in room ''
                 @ [CHR 0x27] @ roomName @ [CHR 0x27])"

text \<open>Line 174.\<close>

definition NotInRoom :: "string \<Rightarrow> error" where
  "NotInRoom userName =
     errors_New (''User '' @ [CHR 0x27] @ userName @ [CHR 0x27] @ '' is not in a room.'')"

section \<open>Concrete states and rooms packages\<close>

text \<open>The package variables as lines 25 and 26 initialise them, beside a rooms package in state \<open>w\<close>.\<close>

definition initial_state :: "'w \<Rightarrow> ('r, 'w) state" where
  "initial_state w = \<lparr>users = Map.empty, userCount = 0, rooms_world = w, calls = []\<rparr>"

text \<open>
  Two rooms packages to run the operations on. A room is its name, and the state of the
  package is the list of the members of all rooms. The first package finds every room and
  accepts every request; the second finds every room and refuses every request; the third
  finds no room.
\<close>

definition rooms_accepting :: "(string, (string \<times> string) list) rooms_pkg" where
  "rooms_accepting =
     \<lparr>Room_Name = (\<lambda>r. r),
      rooms_Get = (\<lambda>roomName w. (Inr roomName, w)),
      Room_AddUser = (\<lambda>r userName socket' w. (None, (r, userName) # w)),
      Room_RemoveUser = (\<lambda>r userName w. (None, removeAll (r, userName) w))\<rparr>"

definition rooms_refusing :: "(string, (string \<times> string) list) rooms_pkg" where
  "rooms_refusing =
     \<lparr>Room_Name = (\<lambda>r. r),
      rooms_Get = (\<lambda>roomName w. (Inr roomName, w)),
      Room_AddUser = (\<lambda>r userName socket' w. (Some (errors_New ''room is full''), w)),
      Room_RemoveUser = (\<lambda>r userName w. (Some (errors_New ''user is not in the room''), w))\<rparr>"

definition rooms_missing :: "(string, (string \<times> string) list) rooms_pkg" where
  "rooms_missing =
     \<lparr>Room_Name = (\<lambda>r. r),
      rooms_Get = (\<lambda>roomName w. (Inl (errors_New ''no such room''), w)),
      Room_AddUser = (\<lambda>r userName socket' w. (None, w)),
      Room_RemoveUser = (\<lambda>r userName w. (None, w))\<rparr>"

text \<open>A session record as a successful login of a named user builds it, placed in a room.\<close>

definition session_of :: "string \<Rightarrow> string \<Rightarrow> User" where
  "session_of userName roomName =
     \<lparr>name = userName, databaseID = - 1, isGuest = True, room = roomName, status = 0, socket = Some 1\<rparr>"

text \<open>A state with one live entry: the session of alice, in the room given.\<close>

definition alice_in :: "string \<Rightarrow> (string, (string \<times> string) list) state" where
  "alice_in roomName =
     \<lparr>users = [''alice'' \<mapsto> session_of ''alice'' roomName], userCount = 1, rooms_world = [], calls = []\<rparr>"

text \<open>A state with no live entry.\<close>

definition nobody :: "(string, (string \<times> string) list) state" where
  "nobody = initial_state []"

section \<open>Auxiliary notions for the statements\<close>

text \<open>Whether a logged call is a call of \<^verbatim>\<open>AddUser\<close>.\<close>

definition is_AddUser :: "'r call \<Rightarrow> bool" where
  "is_AddUser c = (case c of Call_AddUser _ _ _ \<Rightarrow> True | _ \<Rightarrow> False)"

text \<open>
  Every record is stored under its own name. The initial state has the property and every
  operation of the package keeps it (section \<open>The registry invariant\<close>).
\<close>

definition names_agree :: "('r, 'w) state \<Rightarrow> bool" where
  "names_agree s = (\<forall>k rec. users s k = Some rec \<longrightarrow> name rec = k)"

text \<open>
  The spec's words for \<^verbatim>\<open>Kick\<close> (4.2): \<^verbatim>\<open>Get\<close> followed by logging out the returned
  session, failing with whatever \<^verbatim>\<open>Get\<close> fails with. This definition follows the spec,
  to be compared with \<open>Kick\<close>, which follows the source.
\<close>

definition Get_then_LogOut ::
  "('r, 'w) rooms_pkg \<Rightarrow> string \<Rightarrow> ('r, 'w) state \<Rightarrow> error option \<times> ('r, 'w) state" where
  "Get_then_LogOut R userName s =
     (case Get userName s of
        ((session, Some e), s1) \<Rightarrow> (Some e, s1)
      | ((session, None), s1) \<Rightarrow> (None, LogOut R session s1))"

text \<open>The definitions that running an operation on a concrete state unfolds.\<close>

lemmas fixtures = nobody_def initial_state_def alice_in_def session_of_def
  rooms_accepting_def rooms_refusing_def rooms_missing_def

lemmas evaluation = Join_def Leave_def LogOut_def Kick_def Get_def Login_def Execute_def
  loginUser_def getUser_def changeUserRoomName_def logUserOut_def
  call_rooms_Get_def call_AddUser_def call_RemoveUser_def
  NotLoggedIn_def AlreadyLoggedIn_def NotInRoom_def AlreadyInRoom_def is_AddUser_def

section \<open>The registry actions and the calls into the rooms package\<close>

lemma changeUserRoomName_live:
  "users s (name u) = Some rec \<Longrightarrow>
   changeUserRoomName (u, roomName) s =
     ((None, u\<lparr>room := roomName\<rparr>), s\<lparr>users := (users s)(name u \<mapsto> rec\<lparr>room := roomName\<rparr>)\<rparr>)"
  by (simp add: changeUserRoomName_def)

lemma changeUserRoomName_stale:
  "users s (name u) = None \<Longrightarrow>
   changeUserRoomName (u, roomName) s = ((Some (NotLoggedIn (name u)), u), s)"
  by (simp add: changeUserRoomName_def NotLoggedIn_def)

lemma call_rooms_Get_eq:
  "rooms_Get R roomName (rooms_world s) = (res, w) \<Longrightarrow>
   call_rooms_Get R roomName s = (res, s\<lparr>rooms_world := w, calls := calls s @ [Call_rooms_Get roomName]\<rparr>)"
  by (simp add: call_rooms_Get_def)

lemma call_RemoveUser_eq:
  "Room_RemoveUser R r userName (rooms_world s) = (res, w) \<Longrightarrow>
   call_RemoveUser R r userName s = (res, s\<lparr>rooms_world := w, calls := calls s @ [Call_RemoveUser r userName]\<rparr>)"
  by (simp add: call_RemoveUser_def)

lemma call_AddUser_eq:
  "Room_AddUser R r userName sock (rooms_world s) = (res, w) \<Longrightarrow>
   call_AddUser R r userName sock s = (res, s\<lparr>rooms_world := w, calls := calls s @ [Call_AddUser r userName sock]\<rparr>)"
  by (simp add: call_AddUser_def)

lemma call_rooms_Get_frame:
  "users (snd (call_rooms_Get R roomName s)) = users s \<and>
   userCount (snd (call_rooms_Get R roomName s)) = userCount s \<and>
   filter is_AddUser (calls (snd (call_rooms_Get R roomName s))) = filter is_AddUser (calls s)"
  by (simp add: call_rooms_Get_def is_AddUser_def split: prod.splits)

lemma call_RemoveUser_frame:
  "users (snd (call_RemoveUser R r userName s)) = users s \<and>
   userCount (snd (call_RemoveUser R r userName s)) = userCount s \<and>
   filter is_AddUser (calls (snd (call_RemoveUser R r userName s))) = filter is_AddUser (calls s)"
  by (simp add: call_RemoveUser_def is_AddUser_def split: prod.splits)

lemma call_AddUser_frame:
  "users (snd (call_AddUser R r userName sock s)) = users s \<and>
   userCount (snd (call_AddUser R r userName sock s)) = userCount s \<and>
   fst (call_AddUser R r userName sock s) = fst (Room_AddUser R r userName sock (rooms_world s)) \<and>
   calls (snd (call_AddUser R r userName sock s)) = calls s @ [Call_AddUser r userName sock]"
  by (simp add: call_AddUser_def split: prod.splits)

section \<open>The five ways through Leave\<close>

lemma Leave_no_room:
  "room u = [] \<Longrightarrow> Leave R u s = ((Some (NotInRoom (name u)), u), s)"
  by (simp add: Leave_def NotInRoom_def)

lemma Leave_lookup_fails:
  "room u \<noteq> [] \<Longrightarrow> rooms_Get R (room u) (rooms_world s) = (Inl e, w) \<Longrightarrow>
   Leave R u s = ((Some e, u), s\<lparr>rooms_world := w, calls := calls s @ [Call_rooms_Get (room u)]\<rparr>)"
  by (simp add: Leave_def call_rooms_Get_def)

lemma Leave_remove_fails:
  "room u \<noteq> [] \<Longrightarrow> rooms_Get R (room u) (rooms_world s) = (Inr rm, w) \<Longrightarrow>
   Room_RemoveUser R rm (name u) w = (Some e, w') \<Longrightarrow>
   Leave R u s = ((Some e, u),
      s\<lparr>rooms_world := w', calls := calls s @ [Call_rooms_Get (room u), Call_RemoveUser rm (name u)]\<rparr>)"
  by (simp add: Leave_def call_rooms_Get_def call_RemoveUser_def)

lemma Leave_live:
  "room u \<noteq> [] \<Longrightarrow> rooms_Get R (room u) (rooms_world s) = (Inr rm, w) \<Longrightarrow>
   Room_RemoveUser R rm (name u) w = (None, w') \<Longrightarrow> users s (name u) = Some rec \<Longrightarrow>
   Leave R u s = ((None, u\<lparr>room := []\<rparr>),
      s\<lparr>users := (users s)(name u \<mapsto> rec\<lparr>room := []\<rparr>), rooms_world := w',
        calls := calls s @ [Call_rooms_Get (room u), Call_RemoveUser rm (name u)]\<rparr>)"
  by (simp add: Leave_def call_rooms_Get_def call_RemoveUser_def Execute_def changeUserRoomName_def)

lemma Leave_stale:
  "room u \<noteq> [] \<Longrightarrow> rooms_Get R (room u) (rooms_world s) = (Inr rm, w) \<Longrightarrow>
   Room_RemoveUser R rm (name u) w = (None, w') \<Longrightarrow> users s (name u) = None \<Longrightarrow>
   Leave R u s = ((Some (NotLoggedIn (name u)), u),
      s\<lparr>rooms_world := w', calls := calls s @ [Call_rooms_Get (room u), Call_RemoveUser rm (name u)]\<rparr>)"
  by (simp add: Leave_def call_rooms_Get_def call_RemoveUser_def Execute_def changeUserRoomName_def NotLoggedIn_def)

lemma Leave_cases:
  assumes "room u \<noteq> []"
  obtains (lookup) e w where "rooms_Get R (room u) (rooms_world s) = (Inl e, w)"
  | (remove) rm w e w' where "rooms_Get R (room u) (rooms_world s) = (Inr rm, w)"
       "Room_RemoveUser R rm (name u) w = (Some e, w')"
  | (removed) rm w w' where "rooms_Get R (room u) (rooms_world s) = (Inr rm, w)"
       "Room_RemoveUser R rm (name u) w = (None, w')"
proof -
  obtain res w where g: "rooms_Get R (room u) (rooms_world s) = (res, w)" by (cases "rooms_Get R (room u) (rooms_world s)")
  show thesis
  proof (cases res)
    case (Inl e) with g lookup show ?thesis by simp
  next
    case (Inr rm)
    obtain res' w' where r: "Room_RemoveUser R rm (name u) w = (res', w')" by (cases "Room_RemoveUser R rm (name u) w")
    show ?thesis
    proof (cases res')
      case None with g r Inr removed show ?thesis by simp
    next
      case (Some e) with g r Inr remove show ?thesis by simp
    qed
  qed
qed

text \<open>What \<^verbatim>\<open>Leave\<close> can do to a live session: nothing, or empty the room field of both.\<close>

lemma Leave_effect_live:
  assumes live: "users s (name u) = Some rec"
  shows "(snd (fst (Leave R u s)) = u \<and> users (snd (Leave R u s)) = users s) \<or>
         (snd (fst (Leave R u s)) = u\<lparr>room := []\<rparr> \<and>
          users (snd (Leave R u s)) = (users s)(name u \<mapsto> rec\<lparr>room := []\<rparr>))"
proof (cases "room u = []")
  case True
  then show ?thesis by (simp add: Leave_no_room)
next
  case False
  then show ?thesis
  proof (cases rule: Leave_cases [where R = R and s = s])
    case (lookup e w)
    with False show ?thesis by (simp add: Leave_lookup_fails)
  next
    case (remove rm w e w')
    with False show ?thesis by (simp add: Leave_remove_fails)
  next
    case (removed rm w w')
    with False live show ?thesis by (simp add: Leave_live)
  qed
qed

lemma Leave_effect_stale:
  assumes stale: "users s (name u) = None"
  shows "snd (fst (Leave R u s)) = u \<and> users (snd (Leave R u s)) = users s"
proof (cases "room u = []")
  case True
  then show ?thesis by (simp add: Leave_no_room)
next
  case False
  then show ?thesis
  proof (cases rule: Leave_cases [where R = R and s = s])
    case (lookup e w)
    with False show ?thesis by (simp add: Leave_lookup_fails)
  next
    case (remove rm w e w')
    with False show ?thesis by (simp add: Leave_remove_fails)
  next
    case (removed rm w w')
    with False stale show ?thesis by (simp add: Leave_stale)
  qed
qed

lemma Leave_frame:
  "userCount (snd (Leave R u s)) = userCount s \<and>
   filter is_AddUser (calls (snd (Leave R u s))) = filter is_AddUser (calls s)"
proof (cases "room u = []")
  case True
  then show ?thesis by (simp add: Leave_no_room)
next
  case False
  show ?thesis
  proof (cases "users s (name u)")
    case None
    from False show ?thesis
    proof (cases rule: Leave_cases [where R = R and s = s])
      case (lookup e w)
      with False show ?thesis by (simp add: Leave_lookup_fails is_AddUser_def)
    next
      case (remove rm w e w')
      with False show ?thesis by (simp add: Leave_remove_fails is_AddUser_def)
    next
      case (removed rm w w')
      with False None show ?thesis by (simp add: Leave_stale is_AddUser_def)
    qed
  next
    case (Some rec)
    from False show ?thesis
    proof (cases rule: Leave_cases [where R = R and s = s])
      case (lookup e w)
      with False show ?thesis by (simp add: Leave_lookup_fails is_AddUser_def)
    next
      case (remove rm w e w')
      with False show ?thesis by (simp add: Leave_remove_fails is_AddUser_def)
    next
      case (removed rm w w')
      with False Some show ?thesis by (simp add: Leave_live is_AddUser_def)
    qed
  qed
qed

section \<open>Join on a live and on a stale session\<close>

lemma Join_live:
  assumes live: "users s (name u) = Some rec" and diff: "room u \<noteq> Room_Name R r"
  shows "Join R u r s =
     (let s1 = (if room u \<noteq> [] then snd (Leave R u s) else s);
          s2 = s1\<lparr>users := (users s)(name u \<mapsto> rec\<lparr>room := Room_Name R r\<rparr>)\<rparr>
      in case call_AddUser R r (name u) (socket u) s2 of
           (addErr, s3) \<Rightarrow> ((addErr, u\<lparr>room := Room_Name R r\<rparr>), s3))"
proof (cases "room u = []")
  case True
  with live diff show ?thesis
    by (simp add: Join_def Execute_def changeUserRoomName_live)
next
  case False
  obtain e u' s' where L: "Leave R u s = ((e, u'), s')"
    by (metis surj_pair)
  from Leave_effect_live [OF live, of R] L
  consider (same) "u' = u" "users s' = users s"
    | (left) "u' = u\<lparr>room := []\<rparr>" "users s' = (users s)(name u \<mapsto> rec\<lparr>room := []\<rparr>)"
    by auto
  then show ?thesis
  proof cases
    case same
    with live have "changeUserRoomName (u', Room_Name R r) s' =
        ((None, u\<lparr>room := Room_Name R r\<rparr>),
         s'\<lparr>users := (users s)(name u \<mapsto> rec\<lparr>room := Room_Name R r\<rparr>)\<rparr>)"
      by (simp add: changeUserRoomName_def)
    with False diff L show ?thesis
      by (simp add: Join_def Execute_def)
  next
    case left
    then have "changeUserRoomName (u', Room_Name R r) s' =
        ((None, u\<lparr>room := Room_Name R r\<rparr>),
         s'\<lparr>users := (users s)(name u \<mapsto> rec\<lparr>room := Room_Name R r\<rparr>)\<rparr>)"
      by (simp add: changeUserRoomName_def)
    with False diff L show ?thesis
      by (simp add: Join_def Execute_def)
  qed
qed

lemma Join_stale:
  assumes stale: "users s (name u) = None" and diff: "room u \<noteq> Room_Name R r"
  shows "Join R u r s =
     ((Some (NotLoggedIn (name u)), u), (if room u \<noteq> [] then snd (Leave R u s) else s))"
proof (cases "room u = []")
  case True
  with stale diff show ?thesis
    by (simp add: Join_def Execute_def changeUserRoomName_stale)
next
  case False
  obtain e u' s' where L: "Leave R u s = ((e, u'), s')"
    by (metis surj_pair)
  from Leave_effect_stale [OF stale, of R] L have same: "u' = u" "users s' = users s"
    by auto
  with stale have "changeUserRoomName (u', Room_Name R r) s' = ((Some (NotLoggedIn (name u)), u), s')"
    by (simp add: changeUserRoomName_stale)
  with False diff L show ?thesis
    by (simp add: Join_def Execute_def)
qed

lemma LogOut_users:
  "users (LogOut R u s) = (users s)(name u := None) \<and> userCount (LogOut R u s) = userCount s"
  by (simp add: LogOut_def Execute_def logUserOut_def call_rooms_Get_def call_RemoveUser_def Let_def
      split: prod.splits sum.splits)

lemma Get_nonempty: "userName \<noteq> [] \<Longrightarrow> Get userName s = getUser userName s"
  by (simp add: Get_def Execute_def split: prod.splits option.splits)


lemma Leave_success:
  assumes ok: "fst (fst (Leave R u s)) = None"
  shows "room u \<noteq> [] \<and> snd (fst (Leave R u s)) = u\<lparr>room := []\<rparr> \<and>
         (\<exists>rec. users s (name u) = Some rec \<and>
            users (snd (Leave R u s)) = (users s)(name u \<mapsto> rec\<lparr>room := []\<rparr>))"
proof (cases "room u = []")
  case True
  with ok show ?thesis by (simp add: Leave_no_room)
next
  case False
  then show ?thesis
  proof (cases rule: Leave_cases [where R = R and s = s])
    case (lookup e w)
    with False ok show ?thesis by (simp add: Leave_lookup_fails)
  next
    case (remove rm w e w')
    with False ok show ?thesis by (simp add: Leave_remove_fails)
  next
    case (removed rm w w')
    show ?thesis
    proof (cases "users s (name u)")
      case None
      with False removed ok show ?thesis by (simp add: Leave_stale)
    next
      case (Some rec)
      with False removed show ?thesis by (simp add: Leave_live)
    qed
  qed
qed

lemma Join_live_users:
  assumes live: "users s (name u) = Some rec" and diff: "room u \<noteq> Room_Name R r"
  shows "users (snd (Join R u r s)) = (users s)(name u \<mapsto> rec\<lparr>room := Room_Name R r\<rparr>)"
proof -
  define s2 where "s2 = (if room u \<noteq> [] then snd (Leave R u s) else s)
      \<lparr>users := (users s)(name u \<mapsto> rec\<lparr>room := Room_Name R r\<rparr>)\<rparr>"
  have "snd (Join R u r s) = snd (call_AddUser R r (name u) (socket u) s2)"
    using Join_live [OF live diff] by (simp add: s2_def Let_def split: prod.splits)
  then show ?thesis
    using call_AddUser_frame [of R r "name u" "socket u" s2] by (simp add: s2_def)
qed

section \<open>The registry invariant\<close>

text \<open>
  Every record is stored under its own name: the initial state has the property, and
  \<^verbatim>\<open>Login\<close>, \<^verbatim>\<open>Join\<close>, \<^verbatim>\<open>Leave\<close>, \<^verbatim>\<open>LogOut\<close> and \<^verbatim>\<open>Kick\<close> keep it, as do the
  actions they run.
\<close>

lemma names_agree_initial: "names_agree (initial_state w)"
  by (simp add: names_agree_def initial_state_def)

lemma names_agree_users: "users s' = users s \<Longrightarrow> names_agree s \<Longrightarrow> names_agree s'"
  by (simp add: names_agree_def)

lemma names_agree_store:
  "names_agree s \<Longrightarrow> name rec = k \<Longrightarrow> users s' = (users s)(k \<mapsto> rec) \<Longrightarrow> names_agree s'"
  by (simp add: names_agree_def)

lemma names_agree_delete:
  "names_agree s \<Longrightarrow> users s' = (users s)(k := None) \<Longrightarrow> names_agree s'"
  by (simp add: names_agree_def)

lemma names_agree_loginUser: "names_agree s \<Longrightarrow> names_agree (snd (loginUser p s))"
  by (cases p) (auto simp add: loginUser_def names_agree_def Let_def split: option.splits)

lemma Login_rejected:
  "userName = [] \<or> dbID <s - 1 \<or> sock = None \<Longrightarrow>
   snd (Login c userName dbID g sock s) = s \<and> snd (fst (Login c userName dbID g sock s)) \<noteq> None"
  by (auto simp add: Login_def)

lemma Login_taken:
  assumes "userName \<noteq> []" "\<not> dbID <s - 1" "sock \<noteq> None" "users s userName = Some stored"
  shows "Login c userName dbID g sock s =
     ((User_zero, if c then None else Some (AlreadyLoggedIn userName)), s)"
proof -
  from assms(4) have "loginUser (userName, if g then - 1 else dbID, g, sock) s =
      ((User_zero, Some (AlreadyLoggedIn userName)), s)"
    by (simp add: loginUser_def AlreadyLoggedIn_def)
  with assms(1-3) show ?thesis
    by (auto simp add: Login_def Execute_def Let_def)
qed

lemma Login_free:
  assumes "userName \<noteq> []" "\<not> dbID <s - 1" "sock \<noteq> None" "users s userName = None"
  shows "Login c userName dbID g sock s =
     ((\<lparr>name = userName, databaseID = (if g then - 1 else dbID), isGuest = g, room = [],
        status = 0, socket = sock\<rparr>, None),
      s\<lparr>userCount := userCount s + 1,
        users := (users s)(userName \<mapsto>
          \<lparr>name = userName, databaseID = (if g then - 1 else dbID), isGuest = g, room = [],
           status = 0, socket = sock\<rparr>)\<rparr>)"
proof -
  from assms(4) have "loginUser (userName, if g then - 1 else dbID, g, sock) s =
     ((\<lparr>name = userName, databaseID = (if g then - 1 else dbID), isGuest = g, room = [],
        status = 0, socket = sock\<rparr>, None),
      s\<lparr>userCount := userCount s + 1,
        users := (users s)(userName \<mapsto>
          \<lparr>name = userName, databaseID = (if g then - 1 else dbID), isGuest = g, room = [],
           status = 0, socket = sock\<rparr>)\<rparr>)"
    by (simp add: loginUser_def Let_def)
  with assms(1-3) show ?thesis
    by (auto simp add: Login_def Execute_def Let_def)
qed

lemma names_agree_Login:
  assumes "names_agree s"
  shows "names_agree (snd (Login c userName dbID g sock s))"
proof (cases "userName = [] \<or> dbID <s - 1 \<or> sock = None")
  case True
  with assms show ?thesis by (simp add: Login_rejected)
next
  case False
  show ?thesis
  proof (cases "users s userName")
    case None
    with False assms show ?thesis
      by (simp add: Login_free names_agree_def)
  next
    case (Some stored)
    with False assms show ?thesis
      by (simp add: Login_taken)
  qed
qed

lemma names_agree_changeUserRoomName: "names_agree s \<Longrightarrow> names_agree (snd (changeUserRoomName p s))"
  by (cases p) (auto simp add: changeUserRoomName_def names_agree_def split: option.splits)

lemma names_agree_Leave:
  assumes "names_agree s"
  shows "names_agree (snd (Leave R u s))"
proof (cases "users s (name u)")
  case None
  with assms show ?thesis
    using Leave_effect_stale [of s u R] names_agree_users by blast
next
  case (Some rec)
  with assms have n: "name (rec\<lparr>room := []\<rparr>) = name u"
    by (simp add: names_agree_def)
  from Leave_effect_live [OF Some, of R] show ?thesis
    using assms n names_agree_users names_agree_store by blast
qed

lemma names_agree_Join:
  assumes "names_agree s"
  shows "names_agree (snd (Join R u r s))"
proof (cases "room u = Room_Name R r")
  case True
  with assms show ?thesis by (simp add: Join_def)
next
  case False
  show ?thesis
  proof (cases "users s (name u)")
    case None
    have "users (snd (Join R u r s)) = users s"
      using Join_stale [OF None False] Leave_effect_stale [OF None, of R] by simp
    with assms show ?thesis by (rule names_agree_users [rotated])
  next
    case (Some rec)
    with assms have n: "name (rec\<lparr>room := Room_Name R r\<rparr>) = name u"
      by (simp add: names_agree_def)
    have "users (snd (Join R u r s)) = (users s)(name u \<mapsto> rec\<lparr>room := Room_Name R r\<rparr>)"
      by (rule Join_live_users [OF Some False])
    with assms n show ?thesis by (rule names_agree_store)
  qed
qed

lemma names_agree_LogOut: "names_agree s \<Longrightarrow> names_agree (LogOut R u s)"
  using LogOut_users [of R u s] names_agree_delete by blast

lemma Kick_live:
  "userName \<noteq> [] \<Longrightarrow> users s userName = Some rec \<Longrightarrow> Kick R userName s = (None, LogOut R rec s)"
  by (simp add: Kick_def Get_def Execute_def getUser_def)

lemma Kick_absent:
  "userName \<noteq> [] \<Longrightarrow> users s userName = None \<Longrightarrow> Kick R userName s = (Some (NotLoggedIn userName), s)"
  by (simp add: Kick_def Get_def Execute_def getUser_def NotLoggedIn_def)

lemma Kick_empty_name:
  "Kick R [] s = (Some (errors_New ''users.Kick() requires a user name''), s)"
  by (simp add: Kick_def)

lemma names_agree_Kick:
  assumes "names_agree s"
  shows "names_agree (snd (Kick R userName s))"
proof (cases "userName = []")
  case True
  with assms show ?thesis by (simp add: Kick_empty_name)
next
  case False
  with assms show ?thesis
    by (cases "users s userName") (simp_all add: Kick_live Kick_absent names_agree_LogOut)
qed

section \<open>Claims about the registry actions\<close>

text \<open>
  C1. For every state and every request \<^verbatim>\<open>loginUser\<close> runs: if the registry has an entry for
  the name, the action fails with \<open>AlreadyLoggedIn\<close> and the whole state, so the map and
  the counter, is unchanged; otherwise the counter is incremented (an \<^verbatim>\<open>int64\<close> increment), a
  new record with an empty room and status \<open>StatusAvailable\<close> is stored under the name, and
  the value returned is that record. A second login under the same name, run on the state
  the first one leaves, fails with \<open>AlreadyLoggedIn\<close>.
\<close>

theorem loginUser_spec:
  "(users s userName \<noteq> None \<longrightarrow>
      loginUser (userName, dbID, g, sock) s = ((User_zero, Some (AlreadyLoggedIn userName)), s))
   \<and> (users s userName = None \<longrightarrow>
      (\<exists>u s'. loginUser (userName, dbID, g, sock) s = ((u, None), s')
          \<and> u = \<lparr>name = userName, databaseID = dbID, isGuest = g, room = [],
                  status = StatusAvailable, socket = sock\<rparr>
          \<and> userCount s' = userCount s + 1
          \<and> users s' = (users s)(userName \<mapsto> u)
          \<and> rooms_world s' = rooms_world s \<and> calls s' = calls s
          \<and> snd (fst (loginUser (userName, dbID', g', sock') s')) = Some (AlreadyLoggedIn userName)))"
  by (auto simp add: loginUser_def AlreadyLoggedIn_def StatusAvailable_def Let_def)


text \<open>The action on a state where alice is logged in, and on one where nobody is.\<close>

theorem loginUser_spec_witness:
  "users (alice_in []) ''alice'' \<noteq> None
   \<and> loginUser (''alice'', 7, False, Some 2) (alice_in []) =
       ((User_zero, Some (AlreadyLoggedIn ''alice'')), alice_in [])
   \<and> users nobody ''alice'' = None
   \<and> fst (loginUser (''alice'', 7, False, Some 2) nobody) =
       (\<lparr>name = ''alice'', databaseID = 7, isGuest = False, room = [], status = StatusAvailable,
         socket = Some 2\<rparr>, None)
   \<and> userCount (snd (loginUser (''alice'', 7, False, Some 2) nobody)) = 1
   \<and> users (snd (loginUser (''alice'', 7, False, Some 2) nobody)) ''alice'' =
       Some \<lparr>name = ''alice'', databaseID = 7, isGuest = False, room = [], status = StatusAvailable,
         socket = Some 2\<rparr>"
  using loginUser_spec [where s = "alice_in []" and userName = "''alice''" and dbID = 7 and g = False
      and sock = "Some 2" and dbID' = 7 and g' = False and sock' = "Some 2"]
    loginUser_spec [where s = nobody and userName = "''alice''" and dbID = 7 and g = False
      and sock = "Some 2" and dbID' = 7 and g' = False and sock' = "Some 2"]
  by (auto simp add: fixtures)


text \<open>
  C2. For every state and every name, \<^verbatim>\<open>getUser\<close> fails with \<open>NotLoggedIn\<close> exactly when
  the registry has no entry for the name, and it fails in no other way; otherwise it returns
  the stored record; the state is unchanged in both cases. After \<^verbatim>\<open>logUserOut\<close> of a name,
  and after \<^verbatim>\<open>LogOut\<close> of a session of that name, it fails with \<open>NotLoggedIn\<close>. The
  exported \<^verbatim>\<open>Get\<close> is \<^verbatim>\<open>getUser\<close> on every name that is not empty.
\<close>

theorem getUser_spec:
  "(snd (fst (getUser userName s)) = Some (NotLoggedIn userName) \<longleftrightarrow> users s userName = None)
   \<and> (snd (fst (getUser userName s)) \<noteq> None \<longleftrightarrow> users s userName = None)
   \<and> (users s userName = Some rec \<longrightarrow> fst (getUser userName s) = (rec, None))
   \<and> snd (getUser userName s) = s
   \<and> snd (fst (getUser userName (snd (logUserOut userName s)))) = Some (NotLoggedIn userName)
   \<and> snd (fst (getUser (name u) (LogOut R u s))) = Some (NotLoggedIn (name u))
   \<and> (userName \<noteq> [] \<longrightarrow> Get userName s = getUser userName s)"
  using LogOut_users [of R u s] Get_nonempty [of userName s]
  by (auto simp add: getUser_def NotLoggedIn_def logUserOut_def split: option.splits)


text \<open>Getting alice, who is logged in, and bob, who is not; getting alice after her logout.\<close>

theorem getUser_spec_witness:
  "users (alice_in ''lobby'') ''alice'' = Some (session_of ''alice'' ''lobby'')
   \<and> getUser ''alice'' (alice_in ''lobby'') = ((session_of ''alice'' ''lobby'', None), alice_in ''lobby'')
   \<and> Get ''alice'' (alice_in ''lobby'') = ((session_of ''alice'' ''lobby'', None), alice_in ''lobby'')
   \<and> users (alice_in ''lobby'') ''bob'' = None
   \<and> snd (fst (getUser ''bob'' (alice_in ''lobby''))) = Some (NotLoggedIn ''bob'')
   \<and> snd (fst (getUser ''alice'' (snd (logUserOut ''alice'' (alice_in ''lobby''))))) =
       Some (NotLoggedIn ''alice'')"
  using getUser_spec [of "''alice''" "alice_in ''lobby''" "session_of ''alice'' ''lobby''"
      "session_of ''alice'' ''lobby''" rooms_accepting]
    getUser_spec [of "''bob''" "alice_in ''lobby''" "session_of ''alice'' ''lobby''"
      "session_of ''alice'' ''lobby''" rooms_accepting]
  by (simp add: alice_in_def getUser_def logUserOut_def NotLoggedIn_def)

text \<open>
  C8. For every state and every name, \<^verbatim>\<open>logUserOut\<close> removes the entry of the name and
  changes nothing else: the other entries, the counter, the rooms package and the call log
  are as before. The action has no error to return (its result is the empty slice). When the
  entry is absent the state is unchanged, and running the action twice for one name gives
  the result of running it once.
\<close>

theorem logUserOut_idempotent:
  "users (snd (logUserOut userName s)) = (users s)(userName := None)
   \<and> userCount (snd (logUserOut userName s)) = userCount s
   \<and> rooms_world (snd (logUserOut userName s)) = rooms_world s
   \<and> calls (snd (logUserOut userName s)) = calls s
   \<and> (users s userName = None \<longrightarrow> snd (logUserOut userName s) = s)
   \<and> logUserOut userName (snd (logUserOut userName s)) = logUserOut userName s"
  by (simp add: logUserOut_def fun_upd_idem)

text \<open>
  Logging alice out where she is logged in and where nobody is, and logging her out twice.
\<close>

theorem logUserOut_idempotent_witness:
  "users (snd (logUserOut ''alice'' (alice_in ''lobby''))) ''alice'' = None
   \<and> users nobody ''alice'' = None
   \<and> snd (logUserOut ''alice'' nobody) = nobody
   \<and> snd (logUserOut ''alice'' (snd (logUserOut ''alice'' (alice_in ''lobby'')))) =
       snd (logUserOut ''alice'' (alice_in ''lobby''))"
  using logUserOut_idempotent [of "''alice''" "alice_in ''lobby''"]
    logUserOut_idempotent [of "''alice''" nobody]
  by (simp add: nobody_def initial_state_def)

text \<open>
  C10. For every call of \<^verbatim>\<open>changeUserRoomName\<close> with a session whose name has an entry,
  the new room name is written to the stored record and, through the pointer, to the
  caller's session, and nothing else changes; when the name has no entry the action fails
  with \<open>NotLoggedIn\<close> and neither the state nor the caller's session is changed. So
  \<^verbatim>\<open>Join\<close> and \<^verbatim>\<open>Leave\<close> change the session their caller holds: \<^verbatim>\<open>Join\<close> into another
  room, on a live session, leaves the caller's session with the name of that room, and a
  \<^verbatim>\<open>Leave\<close> that returns no error leaves it with the empty room.
\<close>

theorem changeUserRoomName_writes_both:
  "(users s (name u) = Some rec \<longrightarrow>
      changeUserRoomName (u, roomName) s =
        ((None, u\<lparr>room := roomName\<rparr>), s\<lparr>users := (users s)(name u \<mapsto> rec\<lparr>room := roomName\<rparr>)\<rparr>))
   \<and> (users s (name u) = None \<longrightarrow>
      changeUserRoomName (u, roomName) s = ((Some (NotLoggedIn (name u)), u), s))
   \<and> (users s (name u) = Some rec \<and> room u \<noteq> Room_Name R r \<longrightarrow>
      snd (fst (Join R u r s)) = u\<lparr>room := Room_Name R r\<rparr>)
   \<and> (fst (fst (Leave R u s)) = None \<longrightarrow>
      room u \<noteq> [] \<and> snd (fst (Leave R u s)) = u\<lparr>room := []\<rparr>)"
proof (intro conjI impI)
  assume "users s (name u) = Some rec"
  then show "changeUserRoomName (u, roomName) s =
        ((None, u\<lparr>room := roomName\<rparr>), s\<lparr>users := (users s)(name u \<mapsto> rec\<lparr>room := roomName\<rparr>)\<rparr>)"
    by (rule changeUserRoomName_live)
next
  assume "users s (name u) = None"
  then show "changeUserRoomName (u, roomName) s = ((Some (NotLoggedIn (name u)), u), s)"
    by (rule changeUserRoomName_stale)
next
  assume a: "users s (name u) = Some rec \<and> room u \<noteq> Room_Name R r"
  then have "Join R u r s =
     (let s1 = (if room u \<noteq> [] then snd (Leave R u s) else s);
          s2 = s1\<lparr>users := (users s)(name u \<mapsto> rec\<lparr>room := Room_Name R r\<rparr>)\<rparr>
      in case call_AddUser R r (name u) (socket u) s2 of
           (addErr, s3) \<Rightarrow> ((addErr, u\<lparr>room := Room_Name R r\<rparr>), s3))"
    using Join_live [of s u rec R r] by blast
  then show "snd (fst (Join R u r s)) = u\<lparr>room := Room_Name R r\<rparr>"
    by (simp add: Let_def split: prod.splits)
next
  assume ok: "fst (fst (Leave R u s)) = None"
  from Leave_success [OF ok] show "room u \<noteq> []" and "snd (fst (Leave R u s)) = u\<lparr>room := []\<rparr>"
    by simp_all
qed

text \<open>
  The action on the session of alice, with and without her entry; her session after a
  \<^verbatim>\<open>Join\<close> and after a \<^verbatim>\<open>Leave\<close>.
\<close>

theorem changeUserRoomName_writes_both_witness:
  "users (alice_in []) (name (session_of ''alice'' [])) = Some (session_of ''alice'' [])
   \<and> fst (changeUserRoomName (session_of ''alice'' [], ''lobby'') (alice_in [])) =
        (None, session_of ''alice'' ''lobby'')
   \<and> users (snd (changeUserRoomName (session_of ''alice'' [], ''lobby'') (alice_in []))) ''alice'' =
        Some (session_of ''alice'' ''lobby'')
   \<and> users nobody (name (session_of ''alice'' [])) = None
   \<and> changeUserRoomName (session_of ''alice'' [], ''lobby'') nobody =
        ((Some (NotLoggedIn ''alice''), session_of ''alice'' []), nobody)
   \<and> room (session_of ''alice'' []) \<noteq> Room_Name rooms_accepting ''lobby''
   \<and> snd (fst (Join rooms_accepting (session_of ''alice'' []) ''lobby'' (alice_in []))) =
        session_of ''alice'' ''lobby''
   \<and> fst (fst (Leave rooms_accepting (session_of ''alice'' ''lobby'') (alice_in ''lobby''))) = None
   \<and> snd (fst (Leave rooms_accepting (session_of ''alice'' ''lobby'') (alice_in ''lobby''))) =
        session_of ''alice'' []"
  using changeUserRoomName_writes_both [where s = "alice_in []" and u = "session_of ''alice'' []"
      and rec = "session_of ''alice'' []" and roomName = "''lobby''" and R = rooms_accepting
      and r = "''lobby''"]
    changeUserRoomName_writes_both [where s = nobody and u = "session_of ''alice'' []"
      and rec = "session_of ''alice'' []" and roomName = "''lobby''" and R = rooms_accepting
      and r = "''lobby''"]
    changeUserRoomName_writes_both [where s = "alice_in ''lobby''" and u = "session_of ''alice'' ''lobby''"
      and rec = "session_of ''alice'' ''lobby''" and roomName = "''lobby''" and R = rooms_accepting
      and r = "''hall''"]
  by (simp add: evaluation fixtures)

section \<open>Claims about Login\<close>

text \<open>
  C9. For every call of \<^verbatim>\<open>Login\<close> with \<^verbatim>\<open>isGuest\<close> true, and for both values of the
  condition of line 74: every record that is in the registry after the call and was not
  there before is stored under the name of the call, is the session returned to the caller,
  with no error, and has \<^verbatim>\<open>databaseID\<close> \<open>-1\<close>, whatever \<^verbatim>\<open>dbID\<close> the caller supplied. The
  call stores and returns such a session whenever the name is not empty, \<^verbatim>\<open>dbID\<close> is at
  least \<open>-1\<close>, the socket is not nil and the name has no entry. On a name that has no
  entry, every call that returns no error returns the session it stored, with
  \<^verbatim>\<open>databaseID\<close> \<open>-1\<close>.
\<close>

theorem Login_guest_databaseID:
  "(users (snd (Login c userName dbID True sock s)) k = Some rec \<longrightarrow>
      users s k = Some rec \<or>
      (k = userName \<and> fst (Login c userName dbID True sock s) = (rec, None) \<and>
       databaseID rec = - 1 \<and> sint (databaseID rec) = - 1 \<and> isGuest rec))
   \<and> (userName \<noteq> [] \<and> \<not> dbID <s - 1 \<and> sock \<noteq> None \<and> users s userName = None \<longrightarrow>
      (\<exists>u. fst (Login c userName dbID True sock s) = (u, None) \<and>
           users (snd (Login c userName dbID True sock s)) userName = Some u \<and>
           databaseID u = - 1 \<and> isGuest u \<and> name u = userName \<and> room u = [] \<and>
           status u = StatusAvailable \<and> socket u = sock))
   \<and> (users s userName = None \<and> Login c userName dbID True sock s = ((u, None), s') \<longrightarrow>
      databaseID u = - 1 \<and> isGuest u \<and> users s' userName = Some u)"
proof (intro conjI impI)
  assume stored: "users (snd (Login c userName dbID True sock s)) k = Some rec"
  show "users s k = Some rec \<or>
      (k = userName \<and> fst (Login c userName dbID True sock s) = (rec, None) \<and>
       databaseID rec = - 1 \<and> sint (databaseID rec) = - 1 \<and> isGuest rec)"
  proof (cases "userName = [] \<or> dbID <s - 1 \<or> sock = None")
    case True
    from Login_rejected [OF True, of c True s] stored show ?thesis by simp
  next
    case False
    show ?thesis
    proof (cases "users s userName")
      case (Some old)
      with False stored show ?thesis by (simp add: Login_taken)
    next
      case None
      with False have "Login c userName dbID True sock s =
         ((\<lparr>name = userName, databaseID = - 1, isGuest = True, room = [],
            status = 0, socket = sock\<rparr>, None),
          s\<lparr>userCount := userCount s + 1,
            users := (users s)(userName \<mapsto>
              \<lparr>name = userName, databaseID = - 1, isGuest = True, room = [],
               status = 0, socket = sock\<rparr>)\<rparr>)"
        using Login_free [of userName dbID sock s c True] by simp
      with stored show ?thesis
        by (cases "k = userName") auto
    qed
  qed
next
  assume a: "userName \<noteq> [] \<and> \<not> dbID <s - 1 \<and> sock \<noteq> None \<and> users s userName = None"
  then have "Login c userName dbID True sock s =
     ((\<lparr>name = userName, databaseID = - 1, isGuest = True, room = [],
        status = 0, socket = sock\<rparr>, None),
      s\<lparr>userCount := userCount s + 1,
        users := (users s)(userName \<mapsto>
          \<lparr>name = userName, databaseID = - 1, isGuest = True, room = [],
           status = 0, socket = sock\<rparr>)\<rparr>)"
    using Login_free [of userName dbID sock s c True] by simp
  then show "\<exists>u. fst (Login c userName dbID True sock s) = (u, None) \<and>
           users (snd (Login c userName dbID True sock s)) userName = Some u \<and>
           databaseID u = - 1 \<and> isGuest u \<and> name u = userName \<and> room u = [] \<and>
           status u = StatusAvailable \<and> socket u = sock"
    by (simp add: StatusAvailable_def)
next
  assume a: "users s userName = None \<and> Login c userName dbID True sock s = ((u, None), s')"
  have ok: "\<not> (userName = [] \<or> dbID <s - 1 \<or> sock = None)"
  proof
    assume "userName = [] \<or> dbID <s - 1 \<or> sock = None"
    from Login_rejected [OF this, of c True s] a show False by simp
  qed
  with a have "((u, None), s') =
     ((\<lparr>name = userName, databaseID = - 1, isGuest = True, room = [],
        status = 0, socket = sock\<rparr>, None),
      s\<lparr>userCount := userCount s + 1,
        users := (users s)(userName \<mapsto>
          \<lparr>name = userName, databaseID = - 1, isGuest = True, room = [],
           status = 0, socket = sock\<rparr>)\<rparr>)"
    using Login_free [of userName dbID sock s c True] by simp
  then show "databaseID u = - 1" "isGuest u" "users s' userName = Some u"
    by auto
qed

text \<open>
  A guest login of alice with \<^verbatim>\<open>dbID\<close> 7 stores and returns \<open>-1\<close>, for both values of the
  condition of line 74. A second guest login under her name, on a state where she is logged
  in, stores nothing, for both values.
\<close>

theorem Login_guest_databaseID_witness:
  "''alice'' \<noteq> [] \<and> \<not> (7 :: 64 word) <s - 1 \<and> Some (1::nat) \<noteq> None \<and> users nobody ''alice'' = None
   \<and> fst (Login True ''alice'' 7 True (Some 1) nobody) = (session_of ''alice'' [], None)
   \<and> users (snd (Login True ''alice'' 7 True (Some 1) nobody)) ''alice'' = Some (session_of ''alice'' [])
   \<and> fst (Login False ''alice'' 7 True (Some 1) nobody) = (session_of ''alice'' [], None)
   \<and> users (snd (Login False ''alice'' 7 True (Some 1) nobody)) ''alice'' = Some (session_of ''alice'' [])
   \<and> databaseID (session_of ''alice'' []) = - 1
   \<and> snd (Login True ''alice'' 7 True (Some 2) (alice_in [])) = alice_in []
   \<and> snd (Login False ''alice'' 7 True (Some 2) (alice_in [])) = alice_in []"
  using Login_guest_databaseID [where c = True and userName = "''alice''" and dbID = 7 and sock = "Some 1"
      and s = nobody and k = "''alice''" and rec = "session_of ''alice'' []"
      and u = "session_of ''alice'' []" and s' = "snd (Login True ''alice'' 7 True (Some 1) nobody)"]
    Login_guest_databaseID [where c = False and userName = "''alice''" and dbID = 7 and sock = "Some 1"
      and s = nobody and k = "''alice''" and rec = "session_of ''alice'' []"
      and u = "session_of ''alice'' []" and s' = "snd (Login False ''alice'' 7 True (Some 1) nobody)"]
  by (simp add: Login_def Execute_def loginUser_def Let_def nobody_def initial_state_def session_of_def
      alice_in_def word_sless_alt)

section \<open>Claims about Join and Leave\<close>

text \<open>
  C6. For every session whose room field equals the name of the target room, \<^verbatim>\<open>Join\<close>
  fails with \<open>AlreadyInRoom\<close> and the whole state is unchanged: the registry is as before,
  and the call log is as before, so \<^verbatim>\<open>AddUser\<close> is not called. The caller's session is
  unchanged as well.
\<close>

theorem Join_same_room:
  "room u = Room_Name R r \<Longrightarrow>
   Join R u r s = ((Some (AlreadyInRoom (name u) (Room_Name R r)), u), s)"
  by (simp add: Join_def AlreadyInRoom_def)

text \<open>
  Alice, in the lobby, joins the lobby.
\<close>

theorem Join_same_room_witness:
  "room (session_of ''alice'' ''lobby'') = Room_Name rooms_accepting ''lobby''
   \<and> Join rooms_accepting (session_of ''alice'' ''lobby'') ''lobby'' (alice_in ''lobby'') =
       ((Some (AlreadyInRoom ''alice'' ''lobby''), session_of ''alice'' ''lobby''), alice_in ''lobby'')
   \<and> calls (snd (Join rooms_accepting (session_of ''alice'' ''lobby'') ''lobby'' (alice_in ''lobby''))) = []"
  using Join_same_room [of "session_of ''alice'' ''lobby''" rooms_accepting "''lobby''" "alice_in ''lobby''"]
  by (simp add: session_of_def rooms_accepting_def alice_in_def)

text \<open>
  C4, as stated, fails on a session whose name has no entry (a copy held across a logout):
  the room of the session differs from the name of the target room, yet \<^verbatim>\<open>Join\<close> fails with
  \<open>NotLoggedIn\<close>, the registry has no record whose room it could have set, and no call to
  the rooms package is made.
\<close>

theorem stale_session_Join_counterexample:
  "room (session_of ''alice'' []) \<noteq> Room_Name rooms_accepting ''lobby''
   \<and> fst (Join rooms_accepting (session_of ''alice'' []) ''lobby'' nobody) =
        (Some (NotLoggedIn ''alice''), session_of ''alice'' [])
   \<and> users (snd (Join rooms_accepting (session_of ''alice'' []) ''lobby'' nobody)) ''alice'' = None
   \<and> calls (snd (Join rooms_accepting (session_of ''alice'' []) ''lobby'' nobody)) = []"
  by (simp add: evaluation fixtures)

text \<open>
  C4, amended. For every target room whose name differs from the room of the session: when
  the name of the session has an entry, \<^verbatim>\<open>Join\<close> calls \<^verbatim>\<open>AddUser\<close> in a state \<open>s2\<close> whose
  registry already holds the name of the new room for the session, it returns what \<^verbatim>\<open>AddUser\<close>
  returns, error or not, and the registry after \<^verbatim>\<open>Join\<close> still holds the name of the new
  room (as does the caller's session), also when \<^verbatim>\<open>AddUser\<close> failed. When the name has no
  entry, \<^verbatim>\<open>Join\<close> fails with \<open>NotLoggedIn\<close>, the registry and the caller's session are
  unchanged and \<^verbatim>\<open>AddUser\<close> is not called.
\<close>

theorem Join_sets_room_before_AddUser:
  assumes diff: "room u \<noteq> Room_Name R r"
  shows "(users s (name u) = Some rec \<longrightarrow>
          (\<exists>s2. users s2 = (users s)(name u \<mapsto> rec\<lparr>room := Room_Name R r\<rparr>) \<and>
             Join R u r s =
               (case call_AddUser R r (name u) (socket u) s2 of
                  (addErr, s3) \<Rightarrow> ((addErr, u\<lparr>room := Room_Name R r\<rparr>), s3)) \<and>
             fst (fst (Join R u r s)) = fst (Room_AddUser R r (name u) (socket u) (rooms_world s2)) \<and>
             calls (snd (Join R u r s)) = calls s2 @ [Call_AddUser r (name u) (socket u)]) \<and>
          users (snd (Join R u r s)) = (users s)(name u \<mapsto> rec\<lparr>room := Room_Name R r\<rparr>) \<and>
          snd (fst (Join R u r s)) = u\<lparr>room := Room_Name R r\<rparr>)
       \<and> (users s (name u) = None \<longrightarrow>
          fst (Join R u r s) = (Some (NotLoggedIn (name u)), u) \<and>
          users (snd (Join R u r s)) = users s \<and>
          filter is_AddUser (calls (snd (Join R u r s))) = filter is_AddUser (calls s))"
proof (intro conjI impI)
  assume live: "users s (name u) = Some rec"
  define s1 where "s1 = (if room u \<noteq> [] then snd (Leave R u s) else s)"
  define s2 where "s2 = s1\<lparr>users := (users s)(name u \<mapsto> rec\<lparr>room := Room_Name R r\<rparr>)\<rparr>"
  have J: "Join R u r s =
            (case call_AddUser R r (name u) (socket u) s2 of
               (addErr, s3) \<Rightarrow> ((addErr, u\<lparr>room := Room_Name R r\<rparr>), s3))"
    using Join_live [OF live diff] by (simp add: s1_def s2_def Let_def)
  have u2: "users s2 = (users s)(name u \<mapsto> rec\<lparr>room := Room_Name R r\<rparr>)"
    by (simp add: s2_def)
  from J have F: "fst (fst (Join R u r s)) = fst (call_AddUser R r (name u) (socket u) s2)"
    and S: "snd (Join R u r s) = snd (call_AddUser R r (name u) (socket u) s2)"
    by (simp_all split: prod.splits)
  from F S have "fst (fst (Join R u r s)) = fst (Room_AddUser R r (name u) (socket u) (rooms_world s2))"
    and "calls (snd (Join R u r s)) = calls s2 @ [Call_AddUser r (name u) (socket u)]"
    using call_AddUser_frame [of R r "name u" "socket u" s2] by simp_all
  with u2 J
  show "\<exists>s2. users s2 = (users s)(name u \<mapsto> rec\<lparr>room := Room_Name R r\<rparr>) \<and>
             Join R u r s =
               (case call_AddUser R r (name u) (socket u) s2 of
                  (addErr, s3) \<Rightarrow> ((addErr, u\<lparr>room := Room_Name R r\<rparr>), s3)) \<and>
             fst (fst (Join R u r s)) = fst (Room_AddUser R r (name u) (socket u) (rooms_world s2)) \<and>
             calls (snd (Join R u r s)) = calls s2 @ [Call_AddUser r (name u) (socket u)]"
    by blast
  show "users (snd (Join R u r s)) = (users s)(name u \<mapsto> rec\<lparr>room := Room_Name R r\<rparr>)"
    by (rule Join_live_users [OF live diff])
  from J show "snd (fst (Join R u r s)) = u\<lparr>room := Room_Name R r\<rparr>"
    by (simp split: prod.splits)
next
  assume stale: "users s (name u) = None"
  show "fst (Join R u r s) = (Some (NotLoggedIn (name u)), u)"
    using Join_stale [OF stale diff] by simp
  show "users (snd (Join R u r s)) = users s"
    using Join_stale [OF stale diff] Leave_effect_stale [OF stale, of R] by simp
  show "filter is_AddUser (calls (snd (Join R u r s))) = filter is_AddUser (calls s)"
    using Join_stale [OF stale diff] Leave_frame [of R u s] by simp
qed

text \<open>
  Alice, in the hall, joins the lobby of a rooms package that refuses her: the error is the
  one of \<^verbatim>\<open>AddUser\<close> and her registry record names the lobby. The same call on a state
  without her entry.
\<close>

theorem Join_sets_room_before_AddUser_witness:
  "room (session_of ''alice'' ''hall'') \<noteq> Room_Name rooms_refusing ''lobby''
   \<and> users (alice_in ''hall'') (name (session_of ''alice'' ''hall'')) = Some (session_of ''alice'' ''hall'')
   \<and> fst (Join rooms_refusing (session_of ''alice'' ''hall'') ''lobby'' (alice_in ''hall'')) =
        (Some (errors_New ''room is full''), session_of ''alice'' ''lobby'')
   \<and> users (snd (Join rooms_refusing (session_of ''alice'' ''hall'') ''lobby'' (alice_in ''hall''))) ''alice'' =
        Some (session_of ''alice'' ''lobby'')
   \<and> calls (snd (Join rooms_refusing (session_of ''alice'' ''hall'') ''lobby'' (alice_in ''hall''))) =
        [Call_rooms_Get ''hall'', Call_RemoveUser ''hall'' ''alice'', Call_AddUser ''lobby'' ''alice'' (Some 1)]
   \<and> users nobody (name (session_of ''alice'' ''hall'')) = None
   \<and> fst (Join rooms_refusing (session_of ''alice'' ''hall'') ''lobby'' nobody) =
        (Some (NotLoggedIn ''alice''), session_of ''alice'' ''hall'')
   \<and> calls (snd (Join rooms_refusing (session_of ''alice'' ''hall'') ''lobby'' nobody)) =
        [Call_rooms_Get ''hall'', Call_RemoveUser ''hall'' ''alice'']"
  using Join_sets_room_before_AddUser [of "session_of ''alice'' ''hall''" rooms_refusing "''lobby''"
      "alice_in ''hall''" "session_of ''alice'' ''hall''"]
    Join_sets_room_before_AddUser [of "session_of ''alice'' ''hall''" rooms_refusing "''lobby''"
      nobody "session_of ''alice'' ''hall''"]
  by (simp add: evaluation fixtures)

text \<open>
  C5, as stated, fails on a session whose name has no entry: the room lookup and
  \<^verbatim>\<open>RemoveUser\<close> succeed, yet \<^verbatim>\<open>Leave\<close> fails with \<open>NotLoggedIn\<close> and the room field of
  the session is not emptied.
\<close>

theorem stale_session_Leave_counterexample:
  "room (session_of ''alice'' ''lobby'') \<noteq> []
   \<and> rooms_Get rooms_accepting ''lobby'' (rooms_world nobody) = (Inr ''lobby'', [])
   \<and> Room_RemoveUser rooms_accepting ''lobby'' ''alice'' [] = (None, [])
   \<and> fst (Leave rooms_accepting (session_of ''alice'' ''lobby'') nobody) =
        (Some (NotLoggedIn ''alice''), session_of ''alice'' ''lobby'')
   \<and> room (snd (fst (Leave rooms_accepting (session_of ''alice'' ''lobby'') nobody))) = ''lobby''
   \<and> users (snd (Leave rooms_accepting (session_of ''alice'' ''lobby'') nobody)) ''alice'' = None"
  by (simp add: evaluation fixtures)

text \<open>
  C5, amended. For every session: when its room field is empty, \<^verbatim>\<open>Leave\<close> fails with
  \<open>NotInRoom\<close> and the whole state, call log included, is unchanged. Otherwise it looks the
  room up by name and, when found, calls \<^verbatim>\<open>RemoveUser\<close>; when the lookup or \<^verbatim>\<open>RemoveUser\<close>
  fails, it returns that error, and the registry and the caller's session are unchanged.
  When both succeed it runs \<^verbatim>\<open>changeUserRoomName\<close> with the empty string: if the name of the
  session has an entry, the room field of the stored record and of the caller's session
  becomes empty and no error is returned; if it has none, \<^verbatim>\<open>Leave\<close> fails with
  \<open>NotLoggedIn\<close> and the registry and the caller's session are unchanged. Whenever \<^verbatim>\<open>Leave\<close>
  returns no error, the room field is empty in the caller's session and in the registry.
\<close>

theorem Leave_spec:
  "(room u = [] \<longrightarrow> Leave R u s = ((Some (NotInRoom (name u)), u), s))
   \<and> (room u \<noteq> [] \<and> rooms_Get R (room u) (rooms_world s) = (Inl e, w) \<longrightarrow>
        Leave R u s =
          ((Some e, u), s\<lparr>rooms_world := w, calls := calls s @ [Call_rooms_Get (room u)]\<rparr>))
   \<and> (room u \<noteq> [] \<and> rooms_Get R (room u) (rooms_world s) = (Inr rm, w)
        \<and> Room_RemoveUser R rm (name u) w = (Some e, w') \<longrightarrow>
        Leave R u s =
          ((Some e, u),
           s\<lparr>rooms_world := w', calls := calls s @ [Call_rooms_Get (room u), Call_RemoveUser rm (name u)]\<rparr>))
   \<and> (room u \<noteq> [] \<and> rooms_Get R (room u) (rooms_world s) = (Inr rm, w)
        \<and> Room_RemoveUser R rm (name u) w = (None, w') \<and> users s (name u) = Some rec \<longrightarrow>
        Leave R u s =
          ((None, u\<lparr>room := []\<rparr>),
           s\<lparr>users := (users s)(name u \<mapsto> rec\<lparr>room := []\<rparr>), rooms_world := w',
             calls := calls s @ [Call_rooms_Get (room u), Call_RemoveUser rm (name u)]\<rparr>))
   \<and> (room u \<noteq> [] \<and> rooms_Get R (room u) (rooms_world s) = (Inr rm, w)
        \<and> Room_RemoveUser R rm (name u) w = (None, w') \<and> users s (name u) = None \<longrightarrow>
        Leave R u s =
          ((Some (NotLoggedIn (name u)), u),
           s\<lparr>rooms_world := w', calls := calls s @ [Call_rooms_Get (room u), Call_RemoveUser rm (name u)]\<rparr>))
   \<and> (fst (fst (Leave R u s)) = None \<longrightarrow>
        room (snd (fst (Leave R u s))) = [] \<and>
        (\<exists>stored. users (snd (Leave R u s)) (name u) = Some stored \<and> room stored = []))"
proof (intro conjI impI)
  assume "room u = []"
  then show "Leave R u s = ((Some (NotInRoom (name u)), u), s)"
    by (rule Leave_no_room)
next
  assume "room u \<noteq> [] \<and> rooms_Get R (room u) (rooms_world s) = (Inl e, w)"
  then show "Leave R u s =
      ((Some e, u), s\<lparr>rooms_world := w, calls := calls s @ [Call_rooms_Get (room u)]\<rparr>)"
    by (simp add: Leave_lookup_fails)
next
  assume "room u \<noteq> [] \<and> rooms_Get R (room u) (rooms_world s) = (Inr rm, w)
        \<and> Room_RemoveUser R rm (name u) w = (Some e, w')"
  then show "Leave R u s =
      ((Some e, u),
       s\<lparr>rooms_world := w', calls := calls s @ [Call_rooms_Get (room u), Call_RemoveUser rm (name u)]\<rparr>)"
    by (simp add: Leave_remove_fails)
next
  assume "room u \<noteq> [] \<and> rooms_Get R (room u) (rooms_world s) = (Inr rm, w)
        \<and> Room_RemoveUser R rm (name u) w = (None, w') \<and> users s (name u) = Some rec"
  then show "Leave R u s =
      ((None, u\<lparr>room := []\<rparr>),
       s\<lparr>users := (users s)(name u \<mapsto> rec\<lparr>room := []\<rparr>), rooms_world := w',
         calls := calls s @ [Call_rooms_Get (room u), Call_RemoveUser rm (name u)]\<rparr>)"
    by (simp add: Leave_live)
next
  assume "room u \<noteq> [] \<and> rooms_Get R (room u) (rooms_world s) = (Inr rm, w)
        \<and> Room_RemoveUser R rm (name u) w = (None, w') \<and> users s (name u) = None"
  then show "Leave R u s =
      ((Some (NotLoggedIn (name u)), u),
       s\<lparr>rooms_world := w', calls := calls s @ [Call_rooms_Get (room u), Call_RemoveUser rm (name u)]\<rparr>)"
    by (simp add: Leave_stale)
next
  assume ok: "fst (fst (Leave R u s)) = None"
  from Leave_success [OF ok] show "room (snd (fst (Leave R u s))) = []"
    by simp
  from Leave_success [OF ok] obtain stored0 where
    "users (snd (Leave R u s)) = (users s)(name u \<mapsto> stored0\<lparr>room := []\<rparr>)"
    by blast
  then have "users (snd (Leave R u s)) (name u) = Some (stored0\<lparr>room := []\<rparr>)
      \<and> room (stored0\<lparr>room := []\<rparr>) = []"
    by simp
  then show "\<exists>stored. users (snd (Leave R u s)) (name u) = Some stored \<and> room stored = []"
    by blast
qed

text \<open>
  The five ways through \<^verbatim>\<open>Leave\<close>, each run on a concrete state.
\<close>

theorem Leave_spec_witness:
  "room (session_of ''alice'' []) = []
   \<and> Leave rooms_accepting (session_of ''alice'' []) (alice_in []) =
        ((Some (NotInRoom ''alice''), session_of ''alice'' []), alice_in [])
   \<and> room (session_of ''alice'' ''lobby'') \<noteq> []
   \<and> rooms_Get rooms_missing ''lobby'' [] = (Inl (errors_New ''no such room''), [])
   \<and> fst (Leave rooms_missing (session_of ''alice'' ''lobby'') (alice_in ''lobby'')) =
        (Some (errors_New ''no such room''), session_of ''alice'' ''lobby'')
   \<and> users (snd (Leave rooms_missing (session_of ''alice'' ''lobby'') (alice_in ''lobby''))) ''alice'' =
        Some (session_of ''alice'' ''lobby'')
   \<and> rooms_Get rooms_refusing ''lobby'' [] = (Inr ''lobby'', [])
   \<and> Room_RemoveUser rooms_refusing ''lobby'' ''alice'' [] = (Some (errors_New ''user is not in the room''), [])
   \<and> fst (Leave rooms_refusing (session_of ''alice'' ''lobby'') (alice_in ''lobby'')) =
        (Some (errors_New ''user is not in the room''), session_of ''alice'' ''lobby'')
   \<and> users (snd (Leave rooms_refusing (session_of ''alice'' ''lobby'') (alice_in ''lobby''))) ''alice'' =
        Some (session_of ''alice'' ''lobby'')
   \<and> rooms_Get rooms_accepting ''lobby'' [] = (Inr ''lobby'', [])
   \<and> Room_RemoveUser rooms_accepting ''lobby'' ''alice'' [] = (None, [])
   \<and> users (alice_in ''lobby'') ''alice'' = Some (session_of ''alice'' ''lobby'')
   \<and> fst (Leave rooms_accepting (session_of ''alice'' ''lobby'') (alice_in ''lobby'')) =
        (None, session_of ''alice'' [])
   \<and> users (snd (Leave rooms_accepting (session_of ''alice'' ''lobby'') (alice_in ''lobby''))) ''alice'' =
        Some (session_of ''alice'' [])
   \<and> users nobody ''alice'' = None
   \<and> fst (Leave rooms_accepting (session_of ''alice'' ''lobby'') nobody) =
        (Some (NotLoggedIn ''alice''), session_of ''alice'' ''lobby'')"
  using Leave_spec [where u = "session_of ''alice'' []" and R = rooms_accepting and s = "alice_in []"
      and e = "errors_New []" and w = "[]" and rm = "[]" and w' = "[]" and rec = "session_of ''alice'' []"]
    Leave_spec [where u = "session_of ''alice'' ''lobby''" and R = rooms_missing and s = "alice_in ''lobby''"
      and e = "errors_New ''no such room''" and w = "[]" and rm = "[]" and w' = "[]"
      and rec = "session_of ''alice'' ''lobby''"]
    Leave_spec [where u = "session_of ''alice'' ''lobby''" and R = rooms_refusing and s = "alice_in ''lobby''"
      and e = "errors_New ''user is not in the room''" and w = "[]" and rm = "''lobby''" and w' = "[]"
      and rec = "session_of ''alice'' ''lobby''"]
    Leave_spec [where u = "session_of ''alice'' ''lobby''" and R = rooms_accepting and s = "alice_in ''lobby''"
      and e = "errors_New []" and w = "[]" and rm = "''lobby''" and w' = "[]"
      and rec = "session_of ''alice'' ''lobby''"]
    Leave_spec [where u = "session_of ''alice'' ''lobby''" and R = rooms_accepting and s = nobody
      and e = "errors_New []" and w = "[]" and rm = "''lobby''" and w' = "[]"
      and rec = "session_of ''alice'' ''lobby''"]
  by (simp add: evaluation fixtures)

section \<open>Claims about LogOut and Kick\<close>

text \<open>
  C7. \<^verbatim>\<open>LogOut\<close> has no error to return (the function has no result). Whatever the room
  lookup and \<^verbatim>\<open>RemoveUser\<close> return, and whether or not the session has a room, the registry
  after \<^verbatim>\<open>LogOut\<close> is the registry before it without the entry of the session's name; the
  counter is unchanged.
\<close>

theorem LogOut_always_removes:
  "users (LogOut R u s) = (users s)(name u := None)
   \<and> users (LogOut R u s) (name u) = None
   \<and> userCount (LogOut R u s) = userCount s"
  using LogOut_users [of R u s] by simp

text \<open>
  Logging alice out of the lobby when the lookup fails, when \<^verbatim>\<open>RemoveUser\<close> fails, and
  when she has no room: her entry is removed each time.
\<close>

theorem LogOut_always_removes_witness:
  "users (LogOut rooms_missing (session_of ''alice'' ''lobby'') (alice_in ''lobby'')) ''alice'' = None
   \<and> calls (LogOut rooms_missing (session_of ''alice'' ''lobby'') (alice_in ''lobby'')) =
        [Call_rooms_Get ''lobby'']
   \<and> users (LogOut rooms_refusing (session_of ''alice'' ''lobby'') (alice_in ''lobby'')) ''alice'' = None
   \<and> calls (LogOut rooms_refusing (session_of ''alice'' ''lobby'') (alice_in ''lobby'')) =
        [Call_rooms_Get ''lobby'', Call_RemoveUser ''lobby'' ''alice'']
   \<and> users (LogOut rooms_accepting (session_of ''alice'' []) (alice_in [])) ''alice'' = None
   \<and> calls (LogOut rooms_accepting (session_of ''alice'' []) (alice_in [])) = []"
  using LogOut_always_removes [of rooms_missing "session_of ''alice'' ''lobby''" "alice_in ''lobby''"]
    LogOut_always_removes [of rooms_refusing "session_of ''alice'' ''lobby''" "alice_in ''lobby''"]
    LogOut_always_removes [of rooms_accepting "session_of ''alice'' []" "alice_in []"]
  by (simp add: LogOut_def Execute_def logUserOut_def call_rooms_Get_def call_RemoveUser_def fixtures)

text \<open>
  C3, as stated, fails on the empty name: no session is logged in under it, and \<^verbatim>\<open>Kick\<close>
  fails with its own error, not with the error \<^verbatim>\<open>Get\<close> returns for the empty name.
\<close>

theorem empty_name_Kick_counterexample:
  "users nobody [] = None
   \<and> fst (Kick rooms_accepting [] nobody) = Some (errors_New ''users.Kick() requires a user name'')
   \<and> snd (fst (Get [] nobody)) = Some (errors_New ''users.Get() requires a user name'')
   \<and> fst (Kick rooms_accepting [] nobody) \<noteq> snd (fst (Get [] nobody))
   \<and> Kick rooms_accepting [] nobody \<noteq> Get_then_LogOut rooms_accepting [] nobody"
  by (simp add: Kick_def Get_def Get_then_LogOut_def nobody_def initial_state_def)

text \<open>
  C3, amended. For every name that is not empty, \<^verbatim>\<open>Kick\<close> is \<^verbatim>\<open>Get\<close> followed by
  \<^verbatim>\<open>LogOut\<close> of the session returned: when the name has no entry it fails with the error of
  \<^verbatim>\<open>Get\<close>, which is \<open>NotLoggedIn\<close>, and the state is unchanged; when the name has an entry,
  stored under its own name as in every state the package reaches (section
  \<open>The registry invariant\<close>), it returns no error and the registry loses that entry. For the
  empty name \<^verbatim>\<open>Kick\<close> fails with its own error and the state is unchanged.
\<close>

theorem Kick_is_Get_then_LogOut:
  "(userName \<noteq> [] \<longrightarrow> Kick R userName s = Get_then_LogOut R userName s)
   \<and> (userName \<noteq> [] \<and> users s userName = None \<longrightarrow>
        Kick R userName s = (snd (fst (Get userName s)), s)
        \<and> snd (fst (Get userName s)) = Some (NotLoggedIn userName))
   \<and> (userName \<noteq> [] \<and> users s userName = Some rec \<and> name rec = userName \<longrightarrow>
        fst (Kick R userName s) = None
        \<and> snd (Kick R userName s) = LogOut R (fst (fst (Get userName s))) s
        \<and> users (snd (Kick R userName s)) = (users s)(userName := None))
   \<and> (userName = [] \<longrightarrow>
        Kick R userName s = (Some (errors_New ''users.Kick() requires a user name''), s))"
proof (intro conjI impI)
  assume "userName \<noteq> []"
  then show "Kick R userName s = Get_then_LogOut R userName s"
    by (simp add: Kick_def Get_then_LogOut_def)
next
  assume a: "userName \<noteq> [] \<and> users s userName = None"
  then have "Get userName s = ((User_zero, Some (NotLoggedIn userName)), s)"
    by (simp add: Get_nonempty getUser_def NotLoggedIn_def)
  with a show "Kick R userName s = (snd (fst (Get userName s)), s)"
    and "snd (fst (Get userName s)) = Some (NotLoggedIn userName)"
    by (simp_all add: Kick_absent)
next
  assume a: "userName \<noteq> [] \<and> users s userName = Some rec \<and> name rec = userName"
  then have g: "Get userName s = ((rec, None), s)"
    by (simp add: Get_nonempty getUser_def)
  from a show "fst (Kick R userName s) = None"
    by (simp add: Kick_live)
  from a g show "snd (Kick R userName s) = LogOut R (fst (fst (Get userName s))) s"
    by (simp add: Kick_live)
  from a show "users (snd (Kick R userName s)) = (users s)(userName := None)"
    using LogOut_users [of R rec s] by (simp add: Kick_live)
next
  assume "userName = []"
  then show "Kick R userName s = (Some (errors_New ''users.Kick() requires a user name''), s)"
    by (simp add: Kick_empty_name)
qed

text \<open>
  Kicking alice, who is logged in, bob, who is not, and the empty name.
\<close>

theorem Kick_is_Get_then_LogOut_witness:
  "''alice'' \<noteq> [] \<and> users (alice_in ''lobby'') ''alice'' = Some (session_of ''alice'' ''lobby'')
   \<and> name (session_of ''alice'' ''lobby'') = ''alice''
   \<and> fst (Kick rooms_refusing ''alice'' (alice_in ''lobby'')) = None
   \<and> users (snd (Kick rooms_refusing ''alice'' (alice_in ''lobby''))) ''alice'' = None
   \<and> Kick rooms_refusing ''alice'' (alice_in ''lobby'') = Get_then_LogOut rooms_refusing ''alice'' (alice_in ''lobby'')
   \<and> ''bob'' \<noteq> [] \<and> users (alice_in ''lobby'') ''bob'' = None
   \<and> Kick rooms_refusing ''bob'' (alice_in ''lobby'') = (Some (NotLoggedIn ''bob''), alice_in ''lobby'')
   \<and> Kick rooms_refusing [] (alice_in ''lobby'') =
       (Some (errors_New ''users.Kick() requires a user name''), alice_in ''lobby'')"
  using Kick_is_Get_then_LogOut [of "''alice''" rooms_refusing "alice_in ''lobby''" "session_of ''alice'' ''lobby''"]
    Kick_is_Get_then_LogOut [of "''bob''" rooms_refusing "alice_in ''lobby''" "session_of ''alice'' ''lobby''"]
    Kick_is_Get_then_LogOut [of "[]" rooms_refusing "alice_in ''lobby''" "session_of ''alice'' ''lobby''"]
  by (simp add: Kick_def Get_def Get_then_LogOut_def LogOut_def Execute_def getUser_def logUserOut_def
      call_rooms_Get_def call_RemoveUser_def NotLoggedIn_def fixtures)

end
